theory Spec2Isabelle
  imports
    Main
    "HOL-Library.Word"
    "HOL-Library.Char_ord"
    "HOL-Library.List_Lexorder"
    "HOL-Library.Multiset"
begin

chapter \<open>The fraud dataset pipeline: graph dataset, feature rollup and checksums\<close>

text \<open>
  The development embeds three scripts of the repository:
  \<^item> \<^verbatim>\<open>GNN/build_unified_dataset.py\<close>: labels and id mapping, the canonical edge table,
    the window index, window enrichment with target extraction, and the window export;
  \<^item> \<^verbatim>\<open>LSTM/build_unified_dataset.py\<close>: the daily, weekly and monthly feature rollup;
  \<^item> \<^verbatim>\<open>make_checksums.py\<close>: the verify mode of the checksum tool.

  Tables are lists of rows, files are optional tables (\<open>None\<close>: the file does not exist),
  a raised exception is an outcome of the stage together with the file state it leaves.
  The dataframe engine is modelled by what its operations return: \<open>unique\<close> keeps the
  first occurrence of every row (the engine promises no order), \<open>sort\<close> is a stable sort,
  timestamps and counters are unbounded integers.
\<close>

section \<open>Calendar: days since 1970-01-01 in the proleptic Gregorian calendar\<close>

text \<open>
  The scripts derive window labels with \<^verbatim>\<open>dt.strftime("%Y-%m")\<close> and
  \<^verbatim>\<open>dt.strftime("%G-W%V")\<close>. The library behind these calls is modelled here:
  a date is its number of days since 1970-01-01 (a Thursday).
\<close>

definition leap_days :: "int \<Rightarrow> int" where
  \<comment> \<open>leap years among the years \<open>1 .. y\<close>, continued to all integers\<close>
  "leap_days y = y div 4 - y div 100 + y div 400"

definition is_leap :: "int \<Rightarrow> bool" where
  "is_leap y \<longleftrightarrow> (y mod 4 = 0 \<and> y mod 100 \<noteq> 0) \<or> y mod 400 = 0"

definition days_before_year :: "int \<Rightarrow> int" where
  \<comment> \<open>day number of January 1st of year \<open>y\<close>\<close>
  "days_before_year y = 365 * (y - 1970) + leap_days (y - 1) - leap_days 1969"

definition year_of_day :: "int \<Rightarrow> int" where
  \<comment> \<open>estimate by the mean year length (146097 days in 400 years), then correct by one\<close>
  "year_of_day d =
     (let y0 = 1970 + (400 * d) div 146097
      in if d < days_before_year y0 then y0 - 1
         else if days_before_year (y0 + 1) \<le> d then y0 + 1
         else y0)"

definition ordinal0 :: "int \<Rightarrow> int" where
  \<comment> \<open>day of the year, counted from 0\<close>
  "ordinal0 d = d - days_before_year (year_of_day d)"

definition month_starts :: "bool \<Rightarrow> int list" where
  \<comment> \<open>the day of the year, counted from 0, on which February, March, ... December begin\<close>
  "month_starts leap =
     (let l = (if leap then 1 else 0)
      in [31, 59 + l, 90 + l, 120 + l, 151 + l, 181 + l, 212 + l, 243 + l, 273 + l,
          304 + l, 334 + l])"

definition month_of_ordinal :: "bool \<Rightarrow> int \<Rightarrow> int" where
  \<comment> \<open>one more than the number of months that have begun before or on day \<open>n\<close>\<close>
  "month_of_ordinal leap n = 1 + int (length (filter (\<lambda>s. s \<le> n) (month_starts leap)))"

definition month_of_day :: "int \<Rightarrow> int" where
  "month_of_day d = month_of_ordinal (is_leap (year_of_day d)) (ordinal0 d)"

definition weekday0 :: "int \<Rightarrow> int" where
  \<comment> \<open>Monday is 0; day 0 is a Thursday\<close>
  "weekday0 d = (d + 3) mod 7"

definition iso_thursday :: "int \<Rightarrow> int" where
  \<comment> \<open>the Thursday of the Monday-based week that holds day \<open>d\<close>\<close>
  "iso_thursday d = d - weekday0 d + 3"

definition iso_year :: "int \<Rightarrow> int" where
  \<comment> \<open>ISO 8601: a week belongs to the year that holds its Thursday\<close>
  "iso_year d = year_of_day (iso_thursday d)"

definition iso_week :: "int \<Rightarrow> int" where
  "iso_week d = ordinal0 (iso_thursday d) div 7 + 1"

section \<open>Formatting: the strftime directives the scripts use\<close>

definition digit_char :: "nat \<Rightarrow> char" where
  "digit_char n = ''0123456789'' ! (n mod 10)"

fun digits :: "nat \<Rightarrow> string" where
  "digits n = (if n < 10 then [digit_char n] else digits (n div 10) @ [digit_char (n mod 10)])"

declare digits.simps [simp del]

definition zero_pad :: "nat \<Rightarrow> nat \<Rightarrow> string" where
  "zero_pad w n = replicate (w - length (digits n)) (CHR ''0'') @ digits n"

definition fmt_year :: "int \<Rightarrow> string" where
  \<comment> \<open>four digits for the years 0 to 9999, an explicit sign outside of them\<close>
  "fmt_year y =
     (if 0 \<le> y \<and> y \<le> 9999 then zero_pad 4 (nat y)
      else if y < 0 then CHR ''-'' # zero_pad 4 (nat (- y))
      else CHR ''+'' # zero_pad 4 (nat y))"

definition directive :: "char \<Rightarrow> int \<Rightarrow> string" where
  "directive x d =
     (if x = CHR ''Y'' then fmt_year (year_of_day d)
      else if x = CHR ''m'' then zero_pad 2 (nat (month_of_day d))
      else if x = CHR ''G'' then fmt_year (iso_year d)
      else if x = CHR ''V'' then zero_pad 2 (nat (iso_week d))
      else [CHR ''%'', x])"

fun strftime :: "string \<Rightarrow> int \<Rightarrow> string" where
  "strftime (c # x # rest) d =
     (if c = CHR ''%'' then directive x d @ strftime rest d
      else c # strftime (x # rest) d)"
| "strftime [c] d = [c]"
| "strftime [] d = []"

record datetime =
  date_days :: int
  sec_of_day :: int

definition from_epoch :: "int \<Rightarrow> datetime" where
  \<comment> \<open>\<^verbatim>\<open>pl.from_epoch("ts", time_unit="s")\<close>: a naive (UTC) datetime\<close>
  "from_epoch ts = \<lparr>date_days = ts div 86400, sec_of_day = ts mod 86400\<rparr>"

definition dt_strftime :: "string \<Rightarrow> datetime \<Rightarrow> string" where
  \<comment> \<open>the date directives of a datetime read its date\<close>
  "dt_strftime f t = strftime f (date_days t)"

section \<open>Identity assignment\<close>

type_synonym node_id = "64 word"

record hash_seeds =
  seed :: nat
  seed_1 :: nat
  seed_2 :: nat
  seed_3 :: nat

definition HASH_SEEDS :: hash_seeds where
  "HASH_SEEDS = \<lparr>seed = 20250823, seed_1 = 17, seed_2 = 31, seed_3 = 73\<rparr>"

text \<open>
  The engine's seeded hash of a (possibly null) string column is a parameter of the model:
  a function of the seeds and the value, nothing more is known of it.
\<close>

type_synonym hasher = "hash_seeds \<Rightarrow> string option \<Rightarrow> node_id"

definition lower_char :: "char \<Rightarrow> char" where
  "lower_char c =
     (if CHR ''A'' \<le> c \<and> c \<le> CHR ''Z'' then char_of (of_char c + (32::nat)) else c)"

definition to_lowercase :: "string \<Rightarrow> string" where
  \<comment> \<open>\<^verbatim>\<open>str.to_lowercase()\<close> on the ASCII letters; every other byte is kept\<close>
  "to_lowercase s = map lower_char s"

definition assign :: "hasher \<Rightarrow> string \<Rightarrow> node_id" where
  \<comment> \<open>\<^verbatim>\<open>pl.col(..).str.to_lowercase()\<close> followed by \<^verbatim>\<open>.hash(**HASH_SEEDS).cast(pl.UInt64)\<close>\<close>
  "assign h key = h HASH_SEEDS (Some (to_lowercase key))"

section \<open>The graph dataset: tables and files\<close>

datatype error =
    FileNotFound string
  | ComputeError string
  | DuplicateColumn string

datatype outcome = Done | Raised error

record csv_row =
  csv_address :: string
  csv_is_scam :: int
  csv_is_contract :: int

record label_row =
  address :: string
  address_lc :: string
  is_scam :: int
  is_contract :: "int option"
  node_id :: node_id

record raw_tx =
  from_address :: "string option"
  to_address :: "string option"
  timestamp :: datetime
  raw_value_wei :: string
  raw_tx_fee_wei :: string
  raw_block_number :: int
  raw_contract_creation :: bool
  raw_tx_hash :: string

record edge =
  src_id :: node_id
  dst_id :: node_id
  ts :: int
  value_wei :: string
  tx_fee_wei :: string
  block_number :: int
  contract_creation :: bool
  tx_hash :: string

text \<open>
  A window-index table: the label column (\<open>month\<close> or \<open>week\<close>), the three aggregates,
  and the columns a later join has added, named in \<open>extra_names\<close> with one value per
  name in every row.
\<close>

record window_row =
  win_label :: string
  window_min_ts :: int
  window_end_ts :: int
  edges_cnt :: nat
  extras :: "nat option list"

record window_meta =
  extra_names :: "string list"
  win_rows :: "window_row list"

type_synonym targets = "(string \<times> node_id) list"

record gnn_fs =
  src_tx :: "raw_tx list list"
  labels_csv :: "csv_row list option"
  targets_global :: "label_row list option"
  address_id_map_labels :: "(string \<times> node_id) list option"
  edges_all :: "edge list option"
  month_window_meta :: "window_meta option"
  week_window_meta :: "window_meta option"
  month_targets :: "targets option"
  week_targets :: "targets option"
  edges_by_month :: "string \<rightharpoonup> edge list"
  edges_by_week :: "string \<rightharpoonup> edge list"

datatype freq = Month | Week

fun freq_name :: "freq \<Rightarrow> string" where
  "freq_name Month = ''month''"
| "freq_name Week = ''week''"

fun freq_format :: "freq \<Rightarrow> string" where
  "freq_format Month = ''%Y-%m''"
| "freq_format Week = ''%G-W%V''"

fun meta_fp :: "freq \<Rightarrow> gnn_fs \<Rightarrow> window_meta option" where
  "meta_fp Month s = month_window_meta s"
| "meta_fp Week s = week_window_meta s"

fun write_meta :: "freq \<Rightarrow> window_meta \<Rightarrow> gnn_fs \<Rightarrow> gnn_fs" where
  "write_meta Month m s = s\<lparr>month_window_meta := Some m\<rparr>"
| "write_meta Week m s = s\<lparr>week_window_meta := Some m\<rparr>"

fun targets_out_fp :: "freq \<Rightarrow> gnn_fs \<Rightarrow> targets option" where
  "targets_out_fp Month s = month_targets s"
| "targets_out_fp Week s = week_targets s"

fun write_targets :: "freq \<Rightarrow> targets option \<Rightarrow> gnn_fs \<Rightarrow> gnn_fs" where
  "write_targets Month t s = s\<lparr>month_targets := t\<rparr>"
| "write_targets Week t s = s\<lparr>week_targets := t\<rparr>"

fun parts_dir :: "freq \<Rightarrow> gnn_fs \<Rightarrow> (string \<rightharpoonup> edge list)" where
  "parts_dir Month s = edges_by_month s"
| "parts_dir Week s = edges_by_week s"

fun write_part :: "freq \<Rightarrow> string \<Rightarrow> edge list \<Rightarrow> gnn_fs \<Rightarrow> gnn_fs" where
  "write_part Month l es s = s\<lparr>edges_by_month := (edges_by_month s)(l \<mapsto> es)\<rparr>"
| "write_part Week l es s = s\<lparr>edges_by_week := (edges_by_week s)(l \<mapsto> es)\<rparr>"

subsection \<open>Stage 1: labels and mapping\<close>

fun unique_by :: "('a \<Rightarrow> 'k) \<Rightarrow> 'a list \<Rightarrow> 'a list" where
  \<comment> \<open>\<^verbatim>\<open>unique(subset=[k])\<close>: one row for every key, here the first\<close>
  "unique_by k [] = []"
| "unique_by k (x # xs) = x # unique_by k (filter (\<lambda>y. k y \<noteq> k x) xs)"

definition in_int8 :: "int \<Rightarrow> bool" where
  "in_int8 n \<longleftrightarrow> - 128 \<le> n \<and> n \<le> 127"

definition label_of_csv :: "hasher \<Rightarrow> csv_row \<Rightarrow> label_row" where
  "label_of_csv h r =
     \<lparr>address = csv_address r,
      address_lc = to_lowercase (csv_address r),
      is_scam = csv_is_scam r,
      is_contract = (if in_int8 (csv_is_contract r) then Some (csv_is_contract r) else None),
      node_id = assign h (csv_address r)\<rparr>"

definition build_labels_and_mapping :: "hasher \<Rightarrow> gnn_fs \<Rightarrow> outcome \<times> gnn_fs" where
  "build_labels_and_mapping h s =
     (case labels_csv s of
        None \<Rightarrow> (Raised (FileNotFound ''addr_labels_balanced.csv''), s)
      | Some lab \<Rightarrow>
          if \<not> list_all (\<lambda>r. in_int8 (csv_is_scam r)) lab
          then (Raised (ComputeError ''is_scam''), s)
          else
            let labels = unique_by node_id (map (label_of_csv h) lab)
            in (Done,
                s\<lparr>targets_global := Some labels,
                  address_id_map_labels := Some (map (\<lambda>r. (address r, node_id r)) labels)\<rparr>))"

subsection \<open>Stage 2: the canonical edge table\<close>

definition epoch_s :: "datetime \<Rightarrow> int" where
  \<comment> \<open>\<^verbatim>\<open>dt.epoch("s")\<close>\<close>
  "epoch_s t = date_days t * 86400 + sec_of_day t"

definition edge_of_tx :: "hasher \<Rightarrow> raw_tx \<Rightarrow> edge" where
  "edge_of_tx h r =
     \<lparr>src_id = h HASH_SEEDS (map_option to_lowercase (from_address r)),
      dst_id = h HASH_SEEDS (map_option to_lowercase (to_address r)),
      ts = epoch_s (timestamp r),
      value_wei = raw_value_wei r,
      tx_fee_wei = raw_tx_fee_wei r,
      block_number = raw_block_number r,
      contract_creation = raw_contract_creation r,
      tx_hash = raw_tx_hash r\<rparr>"

definition build_edges_all :: "hasher \<Rightarrow> gnn_fs \<Rightarrow> outcome \<times> gnn_fs" where
  "build_edges_all h s =
     (if src_tx s = [] then (Raised (FileNotFound ''GNN/parquet''), s)
      else (Done, s\<lparr>edges_all := Some (map (edge_of_tx h) (concat (src_tx s)))\<rparr>))"

subsection \<open>Stage 3: the window index\<close>

definition window_label :: "freq \<Rightarrow> int \<Rightarrow> string" where
  \<comment> \<open>\<^verbatim>\<open>pl.from_epoch("ts", time_unit="s")\<close>, then \<^verbatim>\<open>dt.strftime\<close>\<close>
  "window_label f t = dt_strftime (freq_format f) (from_epoch t)"

definition window_of_group :: "string \<Rightarrow> int list \<Rightarrow> window_row list" where
  \<comment> \<open>the aggregates of one group; a group is never empty\<close>
  "window_of_group l tss =
     (case tss of
        [] \<Rightarrow> []
      | t # rest \<Rightarrow>
          [\<lparr>win_label = l, window_min_ts = fold min rest t, window_end_ts = fold max rest t,
            edges_cnt = length tss, extras = []\<rparr>])"

definition group_by_window :: "freq \<Rightarrow> edge list \<Rightarrow> window_meta" where
  \<comment> \<open>\<^verbatim>\<open>lf.group_by(freq).agg([min, max, len]).sort(freq)\<close>\<close>
  "group_by_window f es =
     \<lparr>extra_names = [],
      win_rows =
        concat (map (\<lambda>l. window_of_group l (filter (\<lambda>t. window_label f t = l) (map ts es)))
                 (sort (remdups (map (\<lambda>e. window_label f (ts e)) es))))\<rparr>"

definition build_window_index :: "gnn_fs \<Rightarrow> outcome \<times> gnn_fs" where
  "build_window_index s =
     (case edges_all s of
        None \<Rightarrow> (Raised (FileNotFound ''edges_all/edges.parquet''), s)
      | Some es \<Rightarrow>
          (Done, s\<lparr>month_window_meta := Some (group_by_window Month es),
                   week_window_meta := Some (group_by_window Week es)\<rparr>))"

subsection \<open>Stage 4: window enrichment and target extraction\<close>

definition edges_in_window :: "int \<Rightarrow> int \<Rightarrow> edge list \<Rightarrow> edge list" where
  \<comment> \<open>\<^verbatim>\<open>.filter((pl.col("ts") >= ts_min) & (pl.col("ts") <= ts_max))\<close>\<close>
  "edges_in_window ts_min ts_max es = filter (\<lambda>e. ts_min \<le> ts e \<and> ts e \<le> ts_max) es"

definition nodes_win :: "edge list \<Rightarrow> node_id list" where
  \<comment> \<open>the distinct ids met as source or destination\<close>
  "nodes_win es = remdups (map src_id es @ map dst_id es)"

definition targets_win :: "node_id list \<Rightarrow> node_id list \<Rightarrow> node_id list" where
  \<comment> \<open>\<^verbatim>\<open>nodes_win.join(tg_ids, on="node_id", how="inner")\<close>, \<open>tg_ids\<close> being distinct\<close>
  "targets_win nodes tg_ids = filter (\<lambda>n. n \<in> set tg_ids) nodes"

definition chunk_size :: nat where
  "chunk_size = 50"

definition flush_targets :: "targets list \<Rightarrow> targets option \<Rightarrow> targets option" where
  \<comment> \<open>write the batch when the file is absent, else read the file and write both\<close>
  "flush_targets chunks out =
     (case out of None \<Rightarrow> Some (concat chunks) | Some old \<Rightarrow> Some (old @ concat chunks))"

record enrich_acc =
  nodes_cnt_list :: "(string \<times> nat) list"
  targets_chunks :: "targets list"
  targets_file :: "targets option"

fun enrich_loop :: "edge list \<Rightarrow> node_id list \<Rightarrow> window_row list \<Rightarrow> enrich_acc \<Rightarrow> enrich_acc" where
  "enrich_loop es tg_ids [] a = a"
| "enrich_loop es tg_ids (row # rows) a =
     (let win_id = win_label row;
          nodes = nodes_win (edges_in_window (window_min_ts row) (window_end_ts row) es);
          cnts = nodes_cnt_list a @ [(win_id, length nodes)];
          tw = targets_win nodes tg_ids;
          chunks = (if tw \<noteq> [] then targets_chunks a @ [map (\<lambda>n. (win_id, n)) tw]
                    else targets_chunks a)
      in enrich_loop es tg_ids rows
           (if chunk_size \<le> length chunks
            then \<lparr>nodes_cnt_list = cnts, targets_chunks = [],
                  targets_file = flush_targets chunks (targets_file a)\<rparr>
            else \<lparr>nodes_cnt_list = cnts, targets_chunks = chunks,
                  targets_file = targets_file a\<rparr>))"

definition left_join_row :: "(string \<times> nat) list \<Rightarrow> window_row \<Rightarrow> window_row list" where
  \<comment> \<open>a left join: one output row for every match, one row with a null when there is none\<close>
  "left_join_row add row =
     (case filter (\<lambda>(l, c). l = win_label row) add of
        [] \<Rightarrow> [row\<lparr>extras := extras row @ [None]\<rparr>]
      | ms \<Rightarrow> map (\<lambda>(l, c). row\<lparr>extras := extras row @ [Some c]\<rparr>) ms)"

definition join_column :: "string list \<Rightarrow> string" where
  \<comment> \<open>a right column whose name is taken on the left gets the suffix \<^verbatim>\<open>_right\<close>\<close>
  "join_column names =
     (if ''nodes_cnt'' \<in> set names then ''nodes_cnt_right'' else ''nodes_cnt'')"

definition join_nodes_cnt :: "window_meta \<Rightarrow> (string \<times> nat) list \<Rightarrow> error + window_meta" where
  \<comment> \<open>\<^verbatim>\<open>meta.join(add, on=freq, how="left")\<close>\<close>
  "join_nodes_cnt meta add =
     (let n = join_column (extra_names meta)
      in if n \<in> set (extra_names meta) then Inl (DuplicateColumn n)
         else Inr \<lparr>extra_names = extra_names meta @ [n],
                   win_rows = concat (map (left_join_row add) (win_rows meta))\<rparr>)"

definition process_freq :: "freq \<Rightarrow> node_id list \<Rightarrow> gnn_fs \<Rightarrow> outcome \<times> gnn_fs" where
  "process_freq f tg_ids s =
     (case meta_fp f s of
        None \<Rightarrow> (Raised (FileNotFound (freq_name f @ ''_window_meta.parquet'')), s)
      | Some meta0 \<Rightarrow>
          let meta = meta0\<lparr>win_rows := sort_key win_label (win_rows meta0)\<rparr>
          in if win_rows meta = [] then (Done, s)
             else
               (case edges_all s of
                  None \<Rightarrow> (Raised (FileNotFound ''edges_all/edges.parquet''), s)
                | Some es \<Rightarrow>
                    let a = enrich_loop es tg_ids (win_rows meta)
                              \<lparr>nodes_cnt_list = [], targets_chunks = [],
                               targets_file = targets_out_fp f s\<rparr>;
                        out = (if targets_chunks a \<noteq> []
                               then flush_targets (targets_chunks a) (targets_file a)
                               else targets_file a);
                        s1 = write_targets f out s
                    in if nodes_cnt_list a = [] then (Done, s1)
                       else
                         (case join_nodes_cnt meta (nodes_cnt_list a) of
                            Inl e \<Rightarrow> (Raised e, s1)
                          | Inr meta_new \<Rightarrow> (Done, write_meta f meta_new s1))))"

definition enrich_meta_and_build_targets :: "gnn_fs \<Rightarrow> outcome \<times> gnn_fs" where
  "enrich_meta_and_build_targets s =
     (case targets_global s of
        None \<Rightarrow> (Raised (FileNotFound ''labels/targets_global.parquet''), s)
      | Some tg \<Rightarrow>
          let tg_ids = remdups (map node_id tg)
          in (case process_freq Month tg_ids s of
                (Raised e, s1) \<Rightarrow> (Raised e, s1)
              | (Done, s1) \<Rightarrow> process_freq Week tg_ids s1))"

subsection \<open>Stage 5: window export\<close>

fun export_loop :: "freq \<Rightarrow> window_row list \<Rightarrow> gnn_fs \<Rightarrow> outcome \<times> gnn_fs" where
  "export_loop f [] s = (Done, s)"
| "export_loop f (row # rows) s =
     (if parts_dir f s (win_label row) \<noteq> None then export_loop f rows s
      else
        (case edges_all s of
           None \<Rightarrow> (Raised (FileNotFound ''edges_all/edges.parquet''), s)
         | Some es \<Rightarrow>
             export_loop f rows
               (write_part f (win_label row)
                  (edges_in_window (window_min_ts row) (window_end_ts row) es) s)))"

definition export_freq :: "freq \<Rightarrow> gnn_fs \<Rightarrow> outcome \<times> gnn_fs" where
  "export_freq f s =
     (case meta_fp f s of
        None \<Rightarrow> (Raised (FileNotFound (freq_name f @ ''_window_meta.parquet'')), s)
      | Some meta \<Rightarrow> export_loop f (sort_key win_label (win_rows meta)) s)"

definition export_windows :: "gnn_fs \<Rightarrow> outcome \<times> gnn_fs" where
  "export_windows s =
     (case export_freq Month s of
        (Raised e, s1) \<Rightarrow> (Raised e, s1)
      | (Done, s1) \<Rightarrow> export_freq Week s1)"

section \<open>The feature rollup: daily, weekly, monthly\<close>

subsection \<open>Cells, casts and decimal text\<close>

datatype cell = Null | IntV int | StrV string

definition is_digit :: "char \<Rightarrow> bool" where
  "is_digit c \<longleftrightarrow> CHR ''0'' \<le> c \<and> c \<le> CHR ''9''"

definition digit_val :: "char \<Rightarrow> nat" where
  "digit_val c = of_char c - 48"

definition str_val :: "string \<Rightarrow> nat" where
  "str_val s = foldl (\<lambda>a c. 10 * a + digit_val c) 0 s"

definition parse_nat :: "string \<Rightarrow> nat option" where
  "parse_nat s = (if s \<noteq> [] \<and> list_all is_digit s then Some (str_val s) else None)"

definition split_sign :: "string \<Rightarrow> bool \<times> string" where
  "split_sign s =
     (case s of
        [] \<Rightarrow> (False, [])
      | c # r \<Rightarrow> if c = CHR ''-'' then (True, r) else if c = CHR ''+'' then (False, r) else (False, s))"

definition parse_int :: "string \<Rightarrow> int option" where
  "parse_int s =
     (case split_sign s of (neg, body) \<Rightarrow>
        map_option (\<lambda>n. if neg then - int n else int n) (parse_nat body))"

definition dec_scale :: nat where
  "dec_scale = 9"

definition dec_precision :: nat where
  "dec_precision = 38"

text \<open>
  A \<^verbatim>\<open>Decimal(38, 9)\<close> value is its unscaled integer: the value times \<open>10 ^ 9\<close>, of at
  most 38 digits. A text with more than nine fractional digits, or out of this range,
  does not cast and gives null (\<^verbatim>\<open>strict=False\<close>).
\<close>

definition parse_unsigned_dec :: "string \<Rightarrow> nat option" where
  "parse_unsigned_dec s =
     (let ip = takeWhile (\<lambda>c. c \<noteq> CHR ''.'') s;
          fp = drop 1 (dropWhile (\<lambda>c. c \<noteq> CHR ''.'') s)
      in if ip \<noteq> [] \<and> list_all is_digit ip \<and> list_all is_digit fp \<and> length fp \<le> dec_scale
         then Some (str_val ip * 10 ^ dec_scale + str_val fp * 10 ^ (dec_scale - length fp))
         else None)"

definition cast_decimal_str :: "string \<Rightarrow> int option" where
  "cast_decimal_str s =
     (case split_sign s of (neg, body) \<Rightarrow>
        (case parse_unsigned_dec body of
           None \<Rightarrow> None
         | Some v \<Rightarrow>
             if v < 10 ^ dec_precision then Some (if neg then - int v else int v) else None))"

definition sign_text :: "int \<Rightarrow> string" where
  "sign_text v = (if v < 0 then [CHR ''-''] else [])"

definition dec_text :: "int \<Rightarrow> string" where
  \<comment> \<open>a decimal cast to text: the sign, the integer part, the nine fractional digits\<close>
  "dec_text v =
     sign_text v @ digits (nat \<bar>v\<bar> div 10 ^ dec_scale) @ [CHR ''.'']
     @ zero_pad dec_scale (nat \<bar>v\<bar> mod 10 ^ dec_scale)"

definition int_text :: "int \<Rightarrow> string" where
  "int_text n = sign_text n @ digits (nat \<bar>n\<bar>)"

fun cast_int64 :: "cell \<Rightarrow> int option" where
  "cast_int64 Null = None"
| "cast_int64 (IntV n) = Some n"
| "cast_int64 (StrV s) = parse_int s"

fun cast_decimal :: "cell \<Rightarrow> int option" where
  "cast_decimal Null = None"
| "cast_decimal (IntV n) =
     (if \<bar>n\<bar> * 10 ^ dec_scale < 10 ^ dec_precision then Some (n * 10 ^ dec_scale) else None)"
| "cast_decimal (StrV s) = cast_decimal_str s"

fun cast_utf8 :: "cell \<Rightarrow> cell" where
  "cast_utf8 Null = Null"
| "cast_utf8 (IntV n) = StrV (int_text n)"
| "cast_utf8 (StrV s) = StrV s"

definition fill_null :: "int \<Rightarrow> int option \<Rightarrow> int" where
  "fill_null z v = (case v of None \<Rightarrow> z | Some x \<Rightarrow> x)"

subsection \<open>Columns and their aggregation\<close>

definition ETH_NUMS :: "string list" where
  "ETH_NUMS =
     [''eth_sent_sum'', ''eth_recv_sum'', ''eth_net_flow'',
      ''tx_fee_eth_sum'', ''internal_out_value_eth_sum'', ''internal_in_value_eth_sum'']"

definition INT_COUNTS :: "string list" where
  "INT_COUNTS =
     [''normal_sent_cnt'', ''normal_recv_cnt'', ''normal_total_cnt'', ''normal_failed_cnt'',
      ''normal_to_contract_cnt'', ''normal_to_eoa_cnt'',
      ''gas_used_sum'',
      ''erc20_sent_cnt'', ''erc20_recv_cnt'', ''erc20_total_cnt'',
      ''erc20_unique_tokens_sent'', ''erc20_unique_tokens_recv'',
      ''internal_out_cnt'', ''internal_in_cnt'',
      ''uniq_peers_cnt'', ''uniq_contract_peers_cnt'', ''uniq_eoa_peers_cnt'',
      ''sessions_cnt'',
      ''active_span_min'',
      ''burst_max_tx_5m'']"

definition MAX_ONLY :: "string list" where
  "MAX_ONLY = [''burst_max_tx_5m'']"

definition SUM_ONLY :: "string list" where
  "SUM_ONLY = filter (\<lambda>c. c \<notin> set MAX_ONLY) INT_COUNTS @ ETH_NUMS"

definition sum_int :: "cell list \<Rightarrow> cell" where
  "sum_int cs = IntV (sum_list (map (\<lambda>c. fill_null 0 (cast_int64 c)) cs))"

definition max_int :: "cell list \<Rightarrow> cell" where
  "max_int cs =
     (case map (\<lambda>c. fill_null 0 (cast_int64 c)) cs of
        [] \<Rightarrow> Null
      | x # xs \<Rightarrow> IntV (fold max xs x))"

definition sum_dec_str :: "cell list \<Rightarrow> cell" where
  "sum_dec_str cs = StrV (dec_text (sum_list (map (\<lambda>c. fill_null 0 (cast_decimal c)) cs)))"

definition sum_dec_str_m :: "cell list \<Rightarrow> cell" where
  "sum_dec_str_m cs =
     StrV (dec_text (sum_list (map (\<lambda>c. fill_null 0 (cast_decimal (cast_utf8 c))) cs)))"

definition weekly_aggs :: "string \<Rightarrow> cell list \<Rightarrow> cell" where
  "weekly_aggs c cs =
     (if c \<in> set SUM_ONLY then (if c \<in> set ETH_NUMS then sum_dec_str cs else sum_int cs)
      else if c \<in> set MAX_ONLY then max_int cs
      else Null)"

definition monthly_aggs :: "string \<Rightarrow> cell list \<Rightarrow> cell" where
  "monthly_aggs c cs =
     (if c \<in> set SUM_ONLY then (if c \<in> set ETH_NUMS then sum_dec_str_m cs else sum_int cs)
      else if c \<in> set MAX_ONLY then max_int cs
      else Null)"

subsection \<open>Tables and files of the rollup\<close>

text \<open>
  A feature row carries its columns as a function from the column name; a column the
  table does not have reads \<open>Null\<close>. The daily source is taken to hold every feature
  column. The part directories are listed by name, so they are association lists.
\<close>

record daily_src_row =
  src_address :: string
  src_day :: int
  src_feat :: "string \<Rightarrow> cell"

record daily_row =
  d_node_id :: node_id
  d_address :: string
  d_day :: int
  d_week :: string
  d_month :: string
  d_feat :: "string \<Rightarrow> cell"

record weekly_row =
  w_node_id :: node_id
  w_week :: string
  w_feat :: "string \<Rightarrow> cell"

record monthly_row =
  m_node_id :: node_id
  m_month :: string
  m_feat :: "string \<Rightarrow> cell"

record lstm_fs =
  src_lstm_daily :: "daily_src_row list list"
  daily_out :: "daily_row list option"
  tmp_week_dir :: "(string \<times> weekly_row list) list"
  weekly_out :: "weekly_row list option"
  tmp_month_dir :: "(string \<times> monthly_row list) list"
  monthly_out :: "monthly_row list option"
  readme_fp :: bool

subsection \<open>The script, section by section\<close>

definition daily_week :: "int \<Rightarrow> string" where
  \<comment> \<open>\<^verbatim>\<open>pl.col("day").dt.strftime("%G-W%V")\<close>\<close>
  "daily_week day = strftime ''%G-W%V'' day"

definition daily_month :: "int \<Rightarrow> string" where
  \<comment> \<open>\<^verbatim>\<open>pl.col("day").dt.strftime("%Y-%m")\<close>\<close>
  "daily_month day = strftime ''%Y-%m'' day"

definition addr_map_of :: "(string \<times> node_id) list \<Rightarrow> (string \<times> node_id) list" where
  "addr_map_of m = unique_by fst (map (\<lambda>(a, n). (to_lowercase a, n)) m)"

definition lf_daily :: "(string \<times> node_id) list \<Rightarrow> daily_src_row list \<Rightarrow> daily_row list" where
  \<comment> \<open>the inner join on the lowercase address, then the two labels of the day\<close>
  "lf_daily addr_map src =
     concat (map (\<lambda>r.
       (case map_of addr_map (to_lowercase (src_address r)) of
          None \<Rightarrow> []
        | Some n \<Rightarrow>
            [\<lparr>d_node_id = n, d_address = to_lowercase (src_address r), d_day = src_day r,
              d_week = daily_week (src_day r), d_month = daily_month (src_day r),
              d_feat = src_feat r\<rparr>])) src)"

definition weekly_part :: "daily_row list \<Rightarrow> string \<Rightarrow> weekly_row list" where
  \<comment> \<open>\<^verbatim>\<open>.filter(pl.col("week") == w).group_by(["node_id", "week"]).agg(weekly_aggs)\<close>\<close>
  "weekly_part daily w =
     (let rows = filter (\<lambda>r. d_week r = w) daily
      in map (\<lambda>(n, wk).
           \<lparr>w_node_id = n, w_week = wk,
            w_feat = (\<lambda>c. weekly_aggs c
                       (map (\<lambda>r. d_feat r c)
                          (filter (\<lambda>r. d_node_id r = n \<and> d_week r = wk) rows)))\<rparr>)
         (remdups (map (\<lambda>r. (d_node_id r, d_week r)) rows)))"

fun weekly_loop :: "daily_row list \<Rightarrow> string list \<Rightarrow> (string \<times> weekly_row list) list
    \<Rightarrow> (string \<times> weekly_row list) list" where
  "weekly_loop daily [] parts = parts"
| "weekly_loop daily (w # ws) parts =
     (if map_of parts w \<noteq> None then weekly_loop daily ws parts
      else weekly_loop daily ws (parts @ [(w, weekly_part daily w)]))"

definition part_name :: "string \<Rightarrow> string \<Rightarrow> string" where
  "part_name prefix l = prefix @ l @ ''.parquet''"

definition concat_parts :: "string \<Rightarrow> (string \<times> 'a list) list \<Rightarrow> 'a list" where
  \<comment> \<open>\<^verbatim>\<open>sorted(dir.glob(..))\<close>, then one scan over the files in that order\<close>
  "concat_parts prefix parts = concat (map snd (sort_key (\<lambda>p. part_name prefix (fst p)) parts))"

definition week_month_map :: "daily_row list \<Rightarrow> (string \<times> string) list" where
  \<comment> \<open>\<^verbatim>\<open>.select(["week", "month"]).unique()\<close>\<close>
  "week_month_map daily = remdups (map (\<lambda>r. (d_week r, d_month r)) daily)"

definition w_in_m :: "(string \<times> string) list \<Rightarrow> string \<Rightarrow> string list" where
  \<comment> \<open>\<^verbatim>\<open>week_month_map.filter(pl.col("month") == m).select("week")\<close>\<close>
  "w_in_m wmm m = map fst (filter (\<lambda>(w, m'). m' = m) wmm)"

definition monthly_part :: "weekly_row list \<Rightarrow> string list \<Rightarrow> string \<Rightarrow> monthly_row list" where
  \<comment> \<open>\<^verbatim>\<open>.filter(pl.col("week").is_in(w_in_m)).group_by("node_id").agg(monthly_aggs)\<close>\<close>
  "monthly_part weekly ws m =
     (let rows = filter (\<lambda>r. w_week r \<in> set ws) weekly
      in map (\<lambda>n.
           \<lparr>m_node_id = n, m_month = m,
            m_feat = (\<lambda>c. monthly_aggs c
                       (map (\<lambda>r. w_feat r c) (filter (\<lambda>r. w_node_id r = n) rows)))\<rparr>)
         (remdups (map w_node_id rows)))"

fun monthly_loop :: "(string \<times> string) list \<Rightarrow> weekly_row list option \<Rightarrow> string list
    \<Rightarrow> (string \<times> monthly_row list) list \<Rightarrow> outcome \<times> (string \<times> monthly_row list) list" where
  "monthly_loop wmm weekly [] parts = (Done, parts)"
| "monthly_loop wmm weekly (m # ms) parts =
     (if map_of parts m \<noteq> None then monthly_loop wmm weekly ms parts
      else if w_in_m wmm m = [] then monthly_loop wmm weekly ms parts
      else
        (case weekly of
           None \<Rightarrow> (Raised (FileNotFound ''weekly.parquet''), parts)
         | Some wk \<Rightarrow>
             monthly_loop wmm weekly ms (parts @ [(m, monthly_part wk (w_in_m wmm m) m)])))"

definition lstm_monthly :: "gnn_fs \<Rightarrow> daily_row list \<Rightarrow> lstm_fs \<Rightarrow> outcome \<times> lstm_fs" where
  \<comment> \<open>sections 4 and 5 of the script: the months from the weeks, then the README\<close>
  "lstm_monthly g daily t =
     (case month_window_meta g of
        None \<Rightarrow> (Raised (FileNotFound ''month_window_meta.parquet''), t)
      | Some mm \<Rightarrow>
          (case monthly_loop (week_month_map daily) (weekly_out t)
                  (map win_label (win_rows mm)) (tmp_month_dir t) of
             (Raised e, parts) \<Rightarrow> (Raised e, t\<lparr>tmp_month_dir := parts\<rparr>)
           | (Done, parts) \<Rightarrow>
               let t1 = t\<lparr>tmp_month_dir := parts\<rparr>;
                   t2 = (if parts \<noteq> []
                         then t1\<lparr>monthly_out := Some (concat_parts ''month='' parts)\<rparr> else t1)
               in (Done, t2\<lparr>readme_fp := True\<rparr>)))"

definition lstm_weekly :: "gnn_fs \<Rightarrow> daily_row list \<Rightarrow> lstm_fs \<Rightarrow> outcome \<times> lstm_fs" where
  \<comment> \<open>section 3 of the script: one part for every week of the window index\<close>
  "lstm_weekly g daily t =
     (case week_window_meta g of
        None \<Rightarrow> (Raised (FileNotFound ''week_window_meta.parquet''), t)
      | Some wm \<Rightarrow>
          let parts = weekly_loop daily (map win_label (win_rows wm)) (tmp_week_dir t);
              t1 = t\<lparr>tmp_week_dir := parts\<rparr>;
              t2 = (if parts \<noteq> []
                    then t1\<lparr>weekly_out := Some (concat_parts ''week='' parts)\<rparr> else t1)
          in lstm_monthly g daily t2)"

definition lstm_script :: "gnn_fs \<Rightarrow> lstm_fs \<Rightarrow> outcome \<times> lstm_fs" where
  "lstm_script g t =
     (case (targets_global g, address_id_map_labels g) of
        (Some tg, Some mp) \<Rightarrow>
          if src_lstm_daily t = [] then (Raised (FileNotFound ''LSTM/parquet''), t)
          else
            let daily = lf_daily (addr_map_of mp) (concat (src_lstm_daily t))
            in lstm_weekly g daily (t\<lparr>daily_out := Some daily\<rparr>)
      | _ \<Rightarrow> (Raised (FileNotFound ''labels/mapping''), t))"

section \<open>The checksum tool: verify mode\<close>

definition SKIP_DIR_NAMES :: "string list" where
  "SKIP_DIR_NAMES = [''.git'', ''__pycache__'', ''_tmp_week_parts'', ''_tmp_month_parts'']"

definition SKIP_FILE_SUFFIXES :: "string list" where
  "SKIP_FILE_SUFFIXES = [''.tmp'', ''.part'']"

record disk_file =
  dir_parts :: "string list"
  file_name :: string
  file_bytes :: string

definition startswith :: "string \<Rightarrow> string \<Rightarrow> bool" where
  "startswith s p \<longleftrightarrow> take (length p) s = p"

definition endswith :: "string \<Rightarrow> string \<Rightarrow> bool" where
  "endswith s x \<longleftrightarrow> length x \<le> length s \<and> drop (length s - length x) s = x"

definition rel_path :: "disk_file \<Rightarrow> string" where
  \<comment> \<open>\<^verbatim>\<open>str(p.relative_to(base))\<close>\<close>
  "rel_path f = concat (map (\<lambda>d. d @ ''/'') (dir_parts f)) @ file_name f"

definition walked :: "disk_file \<Rightarrow> bool" where
  \<comment> \<open>the file is below no pruned directory, is not hidden and has no skipped suffix\<close>
  "walked f \<longleftrightarrow>
     list_all (\<lambda>d. d \<notin> set SKIP_DIR_NAMES \<and> \<not> startswith d ''.'') (dir_parts f)
     \<and> \<not> startswith (file_name f) ''.''
     \<and> \<not> list_ex (\<lambda>sfx. endswith (rel_path f) sfx) SKIP_FILE_SUFFIXES"

definition iter_files :: "disk_file list \<Rightarrow> disk_file list" where
  "iter_files fs = filter walked fs"

type_synonym checksums = "(string \<times> (string \<times> string option \<times> string)) list"

datatype report =
    MissingInTable string
  | Mismatch string string string
  | Summary nat nat nat
  | NoBase
  | NoChecksums

record verify_acc =
  ok :: nat
  bad :: nat
  missing :: nat
  printed :: "report list"

definition verify_step :: "(string \<Rightarrow> string) \<Rightarrow> checksums \<Rightarrow> verify_acc \<Rightarrow> disk_file \<Rightarrow> verify_acc" where
  "verify_step sha256 ref a p =
     (let rel = rel_path p; sha = sha256 (file_bytes p)
      in case map_of ref rel of
           None \<Rightarrow> a\<lparr>missing := missing a + 1, printed := printed a @ [MissingInTable rel]\<rparr>
         | Some (sha_ref, _, _) \<Rightarrow>
             if sha_ref = sha then a\<lparr>ok := ok a + 1\<rparr>
             else a\<lparr>bad := bad a + 1, printed := printed a @ [Mismatch rel sha_ref sha]\<rparr>)"

definition verify_main :: "(string \<Rightarrow> string) \<Rightarrow> disk_file list option \<Rightarrow> checksums \<Rightarrow> int \<times> report list" where
  \<comment> \<open>\<open>base = None\<close>: the base directory does not exist; \<open>ref\<close>: the parsed table,
      empty when \<^verbatim>\<open>CHECKSUMS.md\<close> is absent or has no row\<close>
  "verify_main sha256 base ref =
     (case base of
        None \<Rightarrow> (2, [NoBase])
      | Some fs \<Rightarrow>
          if ref = [] then (2, [NoChecksums])
          else
            let a = foldl (verify_step sha256 ref)
                      \<lparr>ok = 0, bad = 0, missing = 0, printed = []\<rparr> (iter_files fs)
            in (if bad a = 0 then 0 else 1,
                printed a @ [Summary (ok a) (bad a) (missing a)]))"

section \<open>Notions used to state the properties\<close>




definition listed :: "checksums \<Rightarrow> disk_file \<Rightarrow> bool" where
  \<comment> \<open>the file's relative path is a key of the parsed table\<close>
  "listed ref f \<longleftrightarrow> map_of ref (rel_path f) \<noteq> None"

definition mismatched :: "(string \<Rightarrow> string) \<Rightarrow> checksums \<Rightarrow> disk_file \<Rightarrow> bool" where
  \<comment> \<open>the file is listed and its SHA256 is not the recorded one\<close>
  "mismatched sha256 ref f =
     (case map_of ref (rel_path f) of
        None \<Rightarrow> False
      | Some (sha_ref, _, _) \<Rightarrow> sha_ref \<noteq> sha256 (file_bytes f))"


section \<open>Concrete inputs used to evaluate the model\<close>

definition ex_hasher :: hasher where
  "ex_hasher sd v = (case v of None \<Rightarrow> 0 | Some s \<Rightarrow> of_nat (seed sd + length s + of_char (last s)))"

definition ex_csv :: csv_row where
  "ex_csv = \<lparr>csv_address = ''0xAB'', csv_is_scam = 1, csv_is_contract = 0\<rparr>"

definition ex_tx :: raw_tx where
  "ex_tx =
     \<lparr>from_address = Some ''0xAB'', to_address = Some ''0xAB'',
      timestamp = \<lparr>date_days = 19753, sec_of_day = 0\<rparr>,
      raw_value_wei = ''100'', raw_tx_fee_wei = ''1'', raw_block_number = 1,
      raw_contract_creation = False, raw_tx_hash = ''0x01''\<rparr>"

text \<open>
  Two transfers of one ISO week, \<open>A \<rightarrow> B\<close> on 2024-01-31 and \<open>B \<rightarrow> C\<close> on 2024-02-01,
  a label table that holds \<open>B\<close> only, and nothing built yet.
\<close>

definition ex_tx1 :: raw_tx where
  "ex_tx1 =
     \<lparr>from_address = Some ''0xAA'', to_address = Some ''0xBB'',
      timestamp = \<lparr>date_days = 19753, sec_of_day = 40800\<rparr>,
      raw_value_wei = ''100'', raw_tx_fee_wei = ''1'', raw_block_number = 1,
      raw_contract_creation = False, raw_tx_hash = ''0x01''\<rparr>"

definition ex_tx2 :: raw_tx where
  "ex_tx2 =
     \<lparr>from_address = Some ''0xBB'', to_address = Some ''0xCC'',
      timestamp = \<lparr>date_days = 19754, sec_of_day = 54400\<rparr>,
      raw_value_wei = ''50'', raw_tx_fee_wei = ''1'', raw_block_number = 2,
      raw_contract_creation = False, raw_tx_hash = ''0x02''\<rparr>"

definition ex_fs0 :: gnn_fs where
  "ex_fs0 =
     \<lparr>src_tx = [[ex_tx1, ex_tx2]],
      labels_csv = Some [\<lparr>csv_address = ''0xBB'', csv_is_scam = 1, csv_is_contract = 0\<rparr>],
      targets_global = None, address_id_map_labels = None, edges_all = None,
      month_window_meta = None, week_window_meta = None,
      month_targets = None, week_targets = None,
      edges_by_month = Map.empty, edges_by_week = Map.empty\<rparr>"

definition ex_e1 :: edge where
  "ex_e1 =
     \<lparr>src_id = 20250924, dst_id = 20250925, ts = 1706700000,
      value_wei = ''100'', tx_fee_wei = ''1'', block_number = 1,
      contract_creation = False, tx_hash = ''0x01''\<rparr>"

definition ex_e2 :: edge where
  "ex_e2 =
     \<lparr>src_id = 20250925, dst_id = 20250926, ts = 1706800000,
      value_wei = ''50'', tx_fee_wei = ''1'', block_number = 2,
      contract_creation = False, tx_hash = ''0x02''\<rparr>"

definition ex_month_meta :: window_meta where
  "ex_month_meta =
     \<lparr>extra_names = [],
      win_rows =
        [\<lparr>win_label = ''2024-01'', window_min_ts = 1706700000, window_end_ts = 1706700000,
          edges_cnt = 1, extras = []\<rparr>,
         \<lparr>win_label = ''2024-02'', window_min_ts = 1706800000, window_end_ts = 1706800000,
          edges_cnt = 1, extras = []\<rparr>]\<rparr>"

definition ex_week_meta :: window_meta where
  "ex_week_meta =
     \<lparr>extra_names = [],
      win_rows =
        [\<lparr>win_label = ''2024-W05'', window_min_ts = 1706700000, window_end_ts = 1706800000,
          edges_cnt = 2, extras = []\<rparr>]\<rparr>"

definition ex_indexed :: gnn_fs where
  \<comment> \<open>the files after the labels, the edge table and the window index are built\<close>
  "ex_indexed =
     \<lparr>src_tx = [[ex_tx1, ex_tx2]],
      labels_csv = Some [\<lparr>csv_address = ''0xBB'', csv_is_scam = 1, csv_is_contract = 0\<rparr>],
      targets_global =
        Some [\<lparr>address = ''0xBB'', address_lc = ''0xbb'', is_scam = 1, is_contract = Some 0,
               node_id = 20250925\<rparr>],
      address_id_map_labels = Some [(''0xBB'', 20250925)],
      edges_all = Some [ex_e1, ex_e2],
      month_window_meta = Some ex_month_meta, week_window_meta = Some ex_week_meta,
      month_targets = None, week_targets = None,
      edges_by_month = Map.empty, edges_by_week = Map.empty\<rparr>"

definition ex_no_input :: gnn_fs where
  "ex_no_input = ex_fs0\<lparr>src_tx := [], labels_csv := None\<rparr>"

definition ex_partly_exported :: gnn_fs where
  \<comment> \<open>an export that was interrupted after its first month\<close>
  "ex_partly_exported = ex_indexed\<lparr>edges_by_month := [''2024-01'' \<mapsto> [ex_e1]]\<rparr>"

definition ex_lstm0 :: lstm_fs where
  "ex_lstm0 =
     \<lparr>src_lstm_daily = [], daily_out = None, tmp_week_dir = [], weekly_out = None,
      tmp_month_dir = [], monthly_out = None, readme_fp = False\<rparr>"

definition ex_enriched :: gnn_fs where
  \<comment> \<open>\<open>ex_indexed\<close> after one run of the enrichment stage\<close>
  "ex_enriched =
     ex_indexed
       \<lparr>month_window_meta :=
          Some \<lparr>extra_names = [''nodes_cnt''],
                win_rows =
                  [\<lparr>win_label = ''2024-01'', window_min_ts = 1706700000,
                    window_end_ts = 1706700000, edges_cnt = 1, extras = [Some 2]\<rparr>,
                   \<lparr>win_label = ''2024-02'', window_min_ts = 1706800000,
                    window_end_ts = 1706800000, edges_cnt = 1, extras = [Some 2]\<rparr>]\<rparr>,
        week_window_meta :=
          Some \<lparr>extra_names = [''nodes_cnt''],
                win_rows =
                  [\<lparr>win_label = ''2024-W05'', window_min_ts = 1706700000,
                    window_end_ts = 1706800000, edges_cnt = 2, extras = [Some 3]\<rparr>]\<rparr>,
        month_targets := Some [(''2024-01'', 20250925), (''2024-02'', 20250925)],
        week_targets := Some [(''2024-W05'', 20250925)]\<rparr>"

definition ex_enriched_twice :: gnn_fs where
  \<comment> \<open>\<open>ex_indexed\<close> after two runs of the enrichment stage\<close>
  "ex_enriched_twice =
     ex_indexed
       \<lparr>month_window_meta :=
          Some \<lparr>extra_names = [''nodes_cnt'', ''nodes_cnt_right''],
                win_rows =
                  [\<lparr>win_label = ''2024-01'', window_min_ts = 1706700000,
                    window_end_ts = 1706700000, edges_cnt = 1, extras = [Some 2, Some 2]\<rparr>,
                   \<lparr>win_label = ''2024-02'', window_min_ts = 1706800000,
                    window_end_ts = 1706800000, edges_cnt = 1, extras = [Some 2, Some 2]\<rparr>]\<rparr>,
        week_window_meta :=
          Some \<lparr>extra_names = [''nodes_cnt'', ''nodes_cnt_right''],
                win_rows =
                  [\<lparr>win_label = ''2024-W05'', window_min_ts = 1706700000,
                    window_end_ts = 1706800000, edges_cnt = 2, extras = [Some 3, Some 3]\<rparr>]\<rparr>,
        month_targets :=
          Some [(''2024-01'', 20250925), (''2024-02'', 20250925),
                (''2024-01'', 20250925), (''2024-02'', 20250925)],
        week_targets := Some [(''2024-W05'', 20250925), (''2024-W05'', 20250925)]\<rparr>"

definition ex_sha :: "string \<Rightarrow> string" where
  \<comment> \<open>a stand-in for SHA256, enough to tell the example files apart\<close>
  "ex_sha bytes = ''sha:'' @ bytes"

definition ex_file_a :: disk_file where
  "ex_file_a = \<lparr>dir_parts = [''gnn_dataset''], file_name = ''a.parquet'', file_bytes = ''x''\<rparr>"

definition ex_file_b :: disk_file where
  "ex_file_b = \<lparr>dir_parts = [], file_name = ''b.parquet'', file_bytes = ''y''\<rparr>"

definition ex_ref :: checksums where
  "ex_ref = [(''gnn_dataset/a.parquet'', (''sha:x'', None, ''1.00 B''))]"

chapter \<open>Properties\<close>

section \<open>Identity assignment is case-normalizing\<close>

lemma lower_char_idem: "lower_char (lower_char c) = lower_char c"
  by (auto simp: lower_char_def less_eq_char_def)

lemma to_lowercase_idem: "to_lowercase (to_lowercase s) = to_lowercase s"
  by (simp add: to_lowercase_def lower_char_idem)

text \<open>
  Claim C3. The id of an address is the seeded hash of its lowercase form, under the fixed
  seed tuple (20250823, 17, 31, 73): an address and its lowercase form get the same id, two
  spellings of one address get the same id, and the labels stage and the edge materializer
  compute this same id for the addresses they read.
\<close>

theorem assign_case_normalizing:
  "assign h key = assign h (to_lowercase key)
   \<and> assign h key = h \<lparr>seed = 20250823, seed_1 = 17, seed_2 = 31, seed_3 = 73\<rparr> (Some (to_lowercase key))
   \<and> (to_lowercase key = to_lowercase key' \<longrightarrow> assign h key = assign h key')
   \<and> node_id (label_of_csv h r) = assign h (csv_address r)
   \<and> (from_address tx = Some key \<longrightarrow> src_id (edge_of_tx h tx) = assign h key)
   \<and> (to_address tx = Some key \<longrightarrow> dst_id (edge_of_tx h tx) = assign h key)"
  by (simp add: assign_def to_lowercase_idem HASH_SEEDS_def label_of_csv_def edge_of_tx_def)

theorem assign_case_normalizing_witness:
  "to_lowercase ''0xAB'' = to_lowercase ''0xab''
   \<and> from_address ex_tx = Some ''0xAB'' \<and> to_address ex_tx = Some ''0xAB''
   \<and> assign ex_hasher ''0xAB'' = assign ex_hasher ''0xab''
   \<and> src_id (edge_of_tx ex_hasher ex_tx) = assign ex_hasher ''0xAB''
   \<and> dst_id (edge_of_tx ex_hasher ex_tx) = assign ex_hasher ''0xAB''"
proof -
  have a: "to_lowercase ''0xAB'' = to_lowercase ''0xab''" by code_simp
  have b: "from_address ex_tx = Some ''0xAB''" by (simp add: ex_tx_def)
  have c: "to_address ex_tx = Some ''0xAB''" by (simp add: ex_tx_def)
  from assign_case_normalizing[of ex_hasher "''0xAB''" "''0xab''" ex_csv ex_tx] a b c
  show ?thesis by blast
qed

section \<open>Window export\<close>

lemma write_part_parts_same: "parts_dir f (write_part f l es s) = (parts_dir f s)(l \<mapsto> es)"
  by (cases f) simp_all

lemma write_part_parts_other: "f' \<noteq> f \<Longrightarrow> parts_dir f' (write_part f l es s) = parts_dir f' s"
  by (cases f; cases f') simp_all

lemma write_part_edges_all: "edges_all (write_part f l es s) = edges_all s"
  by (cases f) simp_all

lemma write_part_meta_fp: "meta_fp f' (write_part f l es s) = meta_fp f' s"
  by (cases f; cases f') simp_all

lemma export_loop_frame:
  "export_loop f rows s = (out, s') \<Longrightarrow>
     edges_all s' = edges_all s \<and> meta_fp f' s' = meta_fp f' s
     \<and> (f' \<noteq> f \<longrightarrow> parts_dir f' s' = parts_dir f' s)"
proof (induction rows arbitrary: s)
  case Nil
  then show ?case by simp
next
  case (Cons row rows)
  show ?case
  proof (cases "parts_dir f s (win_label row) \<noteq> None")
    case True
    with Cons.prems have "export_loop f rows s = (out, s')" by simp
    then show ?thesis by (rule Cons.IH)
  next
    case absent: False
    show ?thesis
    proof (cases "edges_all s")
      case None
      with absent Cons.prems show ?thesis by simp
    next
      case (Some es)
      let ?s1 = "write_part f (win_label row)
                   (edges_in_window (window_min_ts row) (window_end_ts row) es) s"
      from absent Some Cons.prems have "export_loop f rows ?s1 = (out, s')" by simp
      from Cons.IH[OF this] show ?thesis
        by (simp add: write_part_edges_all write_part_meta_fp write_part_parts_other)
    qed
  qed
qed

lemma export_loop_keeps:
  "parts_dir f' s l = Some es \<Longrightarrow> parts_dir f' (snd (export_loop f rows s)) l = Some es"
proof (induction rows arbitrary: s)
  case Nil
  then show ?case by simp
next
  case (Cons row rows)
  show ?case
  proof (cases "parts_dir f s (win_label row) \<noteq> None")
    case True
    then show ?thesis using Cons.IH[OF Cons.prems] by simp
  next
    case absent: False
    show ?thesis
    proof (cases "edges_all s")
      case None
      with absent Cons.prems show ?thesis by simp
    next
      case (Some ed)
      let ?s1 = "write_part f (win_label row)
                   (edges_in_window (window_min_ts row) (window_end_ts row) ed) s"
      have "parts_dir f' ?s1 l = Some es"
      proof (cases "f' = f")
        case True
        with absent Cons.prems have "l \<noteq> win_label row" by auto
        with True Cons.prems show ?thesis by (simp add: write_part_parts_same)
      next
        case False
        with Cons.prems show ?thesis by (simp add: write_part_parts_other)
      qed
      from Cons.IH[OF this] absent Some show ?thesis by simp
    qed
  qed
qed

lemma export_loop_covers:
  "export_loop f rows s = (Done, s') \<Longrightarrow> row \<in> set rows \<Longrightarrow>
     parts_dir f s' (win_label row) \<noteq> None"
proof (induction rows arbitrary: s)
  case Nil
  then show ?case by simp
next
  case (Cons r rows)
  show ?case
  proof (cases "parts_dir f s (win_label r) \<noteq> None")
    case True
    with Cons.prems(1) have run: "export_loop f rows s = (Done, s')" by simp
    show ?thesis
    proof (cases "row = r")
      case True
      from \<open>parts_dir f s (win_label r) \<noteq> None\<close> obtain es
        where "parts_dir f s (win_label r) = Some es" by auto
      from export_loop_keeps[OF this, of f rows] run True show ?thesis by simp
    next
      case False
      with Cons.prems(2) have "row \<in> set rows" by simp
      from Cons.IH[OF run this] show ?thesis .
    qed
  next
    case absent: False
    show ?thesis
    proof (cases "edges_all s")
      case None
      with absent Cons.prems(1) show ?thesis by simp
    next
      case (Some ed)
      let ?es = "edges_in_window (window_min_ts r) (window_end_ts r) ed"
      let ?s1 = "write_part f (win_label r) ?es s"
      from absent Some Cons.prems(1) have run: "export_loop f rows ?s1 = (Done, s')" by simp
      show ?thesis
      proof (cases "row = r")
        case True
        have "parts_dir f ?s1 (win_label r) = Some ?es" by (simp add: write_part_parts_same)
        from export_loop_keeps[OF this, of f rows] run True show ?thesis by simp
      next
        case False
        with Cons.prems(2) have "row \<in> set rows" by simp
        from Cons.IH[OF run this] show ?thesis .
      qed
    qed
  qed
qed

lemma export_loop_skips:
  "(\<And>row. row \<in> set rows \<Longrightarrow> parts_dir f s (win_label row) \<noteq> None) \<Longrightarrow>
     export_loop f rows s = (Done, s)"
  by (induction rows) simp_all

lemma export_freq_frame:
  "export_freq f s = (out, s') \<Longrightarrow>
     edges_all s' = edges_all s \<and> meta_fp f' s' = meta_fp f' s
     \<and> (f' \<noteq> f \<longrightarrow> parts_dir f' s' = parts_dir f' s)"
  unfolding export_freq_def
  by (cases "meta_fp f s") (auto dest: export_loop_frame[where f' = f'])

lemma export_freq_keeps:
  "parts_dir f' s l = Some es \<Longrightarrow> parts_dir f' (snd (export_freq f s)) l = Some es"
  unfolding export_freq_def
  by (cases "meta_fp f s") (simp_all add: export_loop_keeps)

lemma export_freq_again:
  assumes run: "export_freq f s = (Done, s1)"
    and same: "meta_fp f s2 = meta_fp f s" "parts_dir f s2 = parts_dir f s1"
  shows "export_freq f s2 = (Done, s2)"
proof (cases "meta_fp f s")
  case None
  with run show ?thesis by (simp add: export_freq_def)
next
  case (Some meta)
  with run have loop: "export_loop f (sort_key win_label (win_rows meta)) s = (Done, s1)"
    by (simp add: export_freq_def)
  have "export_loop f (sort_key win_label (win_rows meta)) s2 = (Done, s2)"
    by (rule export_loop_skips) (simp add: same export_loop_covers[OF loop])
  with Some same show ?thesis by (simp add: export_freq_def)
qed

text \<open>
  Claim C7. A partition file that exists before the export is the same file after it, for
  either granularity; and an export that ran to its end, run once more on the state it
  left, writes nothing: it ends in that same state.
\<close>

theorem export_windows_idempotent:
  "(parts_dir f s l = Some es \<longrightarrow> parts_dir f (snd (export_windows s)) l = Some es)
   \<and> (export_windows s = (Done, s2) \<longrightarrow> export_windows s2 = (Done, s2))"
proof (intro conjI impI)
  assume have_part: "parts_dir f s l = Some es"
  obtain o1 s1 where m: "export_freq Month s = (o1, s1)" by (cases "export_freq Month s")
  from export_freq_keeps[OF have_part, of Month] m
  have k1: "parts_dir f s1 l = Some es" by simp
  show "parts_dir f (snd (export_windows s)) l = Some es"
  proof (cases o1)
    case Done
    with m k1 export_freq_keeps[OF k1, of Week] show ?thesis
      by (simp add: export_windows_def)
  next
    case (Raised e)
    with m k1 show ?thesis by (simp add: export_windows_def)
  qed
next
  assume run: "export_windows s = (Done, s2)"
  obtain o1 s1 where m: "export_freq Month s = (o1, s1)" by (cases "export_freq Month s")
  with run have o1: "o1 = Done" and w: "export_freq Week s1 = (Done, s2)"
    by (cases o1; simp add: export_windows_def)+
  from export_freq_frame[OF m, of Week] export_freq_frame[OF m, of Month]
  have f1: "meta_fp Week s1 = meta_fp Week s" "meta_fp Month s1 = meta_fp Month s" by simp_all
  from export_freq_frame[OF w, of Month] export_freq_frame[OF w, of Week]
  have f2: "meta_fp Month s2 = meta_fp Month s1" "parts_dir Month s2 = parts_dir Month s1"
    "meta_fp Week s2 = meta_fp Week s1"
    by simp_all
  have "export_freq Month s2 = (Done, s2)"
    using m o1 f1 f2 by (intro export_freq_again[of Month s s1]) simp_all
  moreover have "export_freq Week s2 = (Done, s2)"
    using w f2 by (intro export_freq_again[of Week s1 s2]) simp_all
  ultimately show "export_windows s2 = (Done, s2)" by (simp add: export_windows_def)
qed

theorem export_windows_idempotent_witness:
  "parts_dir Month ex_partly_exported ''2024-01'' = Some [ex_e1]
   \<and> parts_dir Month (snd (export_windows ex_partly_exported)) ''2024-01'' = Some [ex_e1]
   \<and> export_windows ex_partly_exported = (Done, snd (export_windows ex_partly_exported))
   \<and> export_windows (snd (export_windows ex_partly_exported))
       = (Done, snd (export_windows ex_partly_exported))"
proof -
  have h1: "parts_dir Month ex_partly_exported ''2024-01'' = Some [ex_e1]"
    by (simp add: ex_partly_exported_def)
  have "fst (export_windows ex_partly_exported) = Done"
    by (simp add: export_windows_def export_freq_def ex_partly_exported_def ex_indexed_def
        ex_month_meta_def ex_week_meta_def edges_in_window_def)
  then have h2: "export_windows ex_partly_exported = (Done, snd (export_windows ex_partly_exported))"
    by (simp add: prod_eq_iff)
  from export_windows_idempotent[of Month ex_partly_exported "''2024-01''" "[ex_e1]"
      "snd (export_windows ex_partly_exported)"] h1 h2
  show ?thesis by blast
qed

section \<open>Missing inputs\<close>

text \<open>
  Claim C9. With no parquet file in the transaction source directory, the edge materializer
  raises and leaves every file as it was; the rollup script raises and leaves every file as
  it was when the labels or the mapping are absent or when the daily source directory holds
  no parquet file. (Directories are not part of the file state.)
\<close>

theorem missing_input_is_fatal:
  "(src_tx s = [] \<longrightarrow> build_edges_all h s = (Raised (FileNotFound ''GNN/parquet''), s))
   \<and> (targets_global g = None \<or> address_id_map_labels g = None \<or> src_lstm_daily t = []
        \<longrightarrow> (\<exists>p. lstm_script g t = (Raised (FileNotFound p), t)))"
  by (auto simp: build_edges_all_def lstm_script_def split: option.splits)

theorem missing_input_is_fatal_witness:
  "src_tx ex_no_input = [] \<and> targets_global ex_no_input = None
   \<and> build_edges_all ex_hasher ex_no_input = (Raised (FileNotFound ''GNN/parquet''), ex_no_input)
   \<and> (\<exists>p. lstm_script ex_no_input ex_lstm0 = (Raised (FileNotFound p), ex_lstm0))"
proof -
  have a: "src_tx ex_no_input = []" and b: "targets_global ex_no_input = None"
    by (simp_all add: ex_no_input_def ex_fs0_def)
  from missing_input_is_fatal[of ex_no_input ex_hasher ex_no_input ex_lstm0] a b
  show ?thesis by blast
qed

section \<open>Window enrichment\<close>











lemmas ex_run_defs =
  enrich_meta_and_build_targets_def process_freq_def ex_indexed_def ex_enriched_def
  ex_enriched_twice_def ex_month_meta_def ex_week_meta_def ex_e1_def ex_e2_def
  edges_in_window_def nodes_win_def targets_win_def chunk_size_def flush_targets_def
  join_nodes_cnt_def join_column_def left_join_row_def Let_def

lemma ex_enrich_once: "enrich_meta_and_build_targets ex_indexed = (Done, ex_enriched)"
  by (simp add: ex_run_defs)

lemma ex_enrich_twice: "enrich_meta_and_build_targets ex_enriched = (Done, ex_enriched_twice)"
  by (simp add: ex_run_defs)



text \<open>
  Claim C1. A second run of the enrichment stage on the files the first run left does not
  reproduce them. On the two-transfer dataset the first run writes one weekly target row;
  the second run finds the targets file, reads it and writes it back with the same row
  appended, so the table holds the row twice (and the monthly table each of its rows twice);
  the window index gets a second count column, \<open>nodes_cnt_right\<close>.
\<close>

theorem enrich_rerun_duplicates_targets:
  "enrich_meta_and_build_targets ex_indexed = (Done, ex_enriched)
   \<and> enrich_meta_and_build_targets ex_enriched = (Done, ex_enriched_twice)
   \<and> week_targets ex_enriched = Some [(''2024-W05'', 20250925)]
   \<and> week_targets ex_enriched_twice = Some [(''2024-W05'', 20250925), (''2024-W05'', 20250925)]
   \<and> month_targets ex_enriched = Some [(''2024-01'', 20250925), (''2024-02'', 20250925)]
   \<and> month_targets ex_enriched_twice =
        Some [(''2024-01'', 20250925), (''2024-02'', 20250925),
              (''2024-01'', 20250925), (''2024-02'', 20250925)]
   \<and> map_option extra_names (week_window_meta ex_enriched) = Some [''nodes_cnt'']
   \<and> map_option extra_names (week_window_meta ex_enriched_twice)
        = Some [''nodes_cnt'', ''nodes_cnt_right'']
   \<and> ex_enriched_twice \<noteq> ex_enriched"
proof -
  have "week_targets ex_enriched_twice \<noteq> week_targets ex_enriched"
    by (simp add: ex_enriched_def ex_enriched_twice_def)
  then have "ex_enriched_twice \<noteq> ex_enriched" by auto
  then show ?thesis
    using ex_enrich_once ex_enrich_twice by (simp add: ex_enriched_def ex_enriched_twice_def)
qed

section \<open>Checksum verification\<close>

lemma verify_step_bad:
  "bad (verify_step sha256 ref a p) = bad a + (if mismatched sha256 ref p then 1 else 0)"
  by (simp add: verify_step_def mismatched_def Let_def split: option.splits prod.splits)

lemma verify_fold_bad:
  "bad (foldl (verify_step sha256 ref) a fs) = bad a + length (filter (mismatched sha256 ref) fs)"
  by (induction fs arbitrary: a) (simp_all add: verify_step_bad)

lemma verify_step_printed:
  "set (printed (verify_step sha256 ref a p)) \<supseteq>
     set (printed a) \<union> (if listed ref p then {} else {MissingInTable (rel_path p)})"
  by (auto simp: verify_step_def listed_def Let_def split: option.splits prod.splits)

lemma verify_fold_printed:
  "set (printed a) \<union> {MissingInTable (rel_path p) | p. p \<in> set fs \<and> \<not> listed ref p}
     \<subseteq> set (printed (foldl (verify_step sha256 ref) a fs))"
proof (induction fs arbitrary: a)
  case Nil
  show ?case by simp
next
  case (Cons q fs)
  have "set (printed a) \<union> {MissingInTable (rel_path p) | p. p \<in> set (q # fs) \<and> \<not> listed ref p}
        \<subseteq> set (printed (verify_step sha256 ref a q))
           \<union> {MissingInTable (rel_path p) | p. p \<in> set fs \<and> \<not> listed ref p}"
    using verify_step_printed[of a ref q sha256] by auto
  also have "\<dots> \<subseteq> set (printed (foldl (verify_step sha256 ref) (verify_step sha256 ref a q) fs))"
    by (rule Cons.IH)
  finally show ?case by simp
qed

lemma mismatched_listed: "mismatched sha256 ref f \<Longrightarrow> listed ref f"
  by (cases "map_of ref (rel_path f)") (simp_all add: mismatched_def listed_def)

lemma verify_exit:
  "ref \<noteq> [] \<Longrightarrow>
     fst (verify_main sha256 (Some fs) ref)
       = (if list_ex (mismatched sha256 ref) (iter_files fs) then 1 else 0)"
  by (auto simp: verify_main_def Let_def verify_fold_bad list_ex_iff filter_empty_conv)

text \<open>
  Claim C10, as the code has it. When the base directory exists and the parsed table has at
  least one row, the exit code is 0 if no walked file (not hidden, not below a pruned
  directory, without a skipped suffix) that the table lists has a SHA256 other than the
  recorded one, and 1 otherwise; a walked file the table does not list is reported and
  taking such files away changes no exit code. When the base directory is missing or the
  table is empty or absent, the exit code is 2.
\<close>

theorem verify_exit_code:
  "(base = None \<or> ref = [] \<longrightarrow> fst (verify_main sha256 base ref) = 2)
   \<and> (ref \<noteq> [] \<longrightarrow>
        (fst (verify_main sha256 (Some fs) ref) = 0
           \<longleftrightarrow> \<not> list_ex (mismatched sha256 ref) (iter_files fs))
        \<and> (fst (verify_main sha256 (Some fs) ref) \<noteq> 0
             \<longrightarrow> fst (verify_main sha256 (Some fs) ref) = 1)
        \<and> fst (verify_main sha256 (Some (filter (listed ref) fs)) ref)
            = fst (verify_main sha256 (Some fs) ref)
        \<and> (f \<in> set (iter_files fs) \<and> \<not> listed ref f
             \<longrightarrow> MissingInTable (rel_path f) \<in> set (snd (verify_main sha256 (Some fs) ref))))"
proof (intro conjI impI)
  assume "base = None \<or> ref = []"
  then show "fst (verify_main sha256 base ref) = 2"
    by (auto simp: verify_main_def split: option.splits)
next
  assume ne: "ref \<noteq> []"
  show "fst (verify_main sha256 (Some fs) ref) = 0
          \<longleftrightarrow> \<not> list_ex (mismatched sha256 ref) (iter_files fs)"
    by (simp add: verify_exit[OF ne])
  show "fst (verify_main sha256 (Some fs) ref) = 1" if "fst (verify_main sha256 (Some fs) ref) \<noteq> 0"
    using that by (simp add: verify_exit[OF ne] split: if_splits)
  have "list_ex (mismatched sha256 ref) (iter_files (filter (listed ref) fs))
          \<longleftrightarrow> list_ex (mismatched sha256 ref) (iter_files fs)"
    by (auto simp: list_ex_iff iter_files_def dest: mismatched_listed)
  then show "fst (verify_main sha256 (Some (filter (listed ref) fs)) ref)
               = fst (verify_main sha256 (Some fs) ref)"
    by (simp add: verify_exit[OF ne])
  show "MissingInTable (rel_path f) \<in> set (snd (verify_main sha256 (Some fs) ref))"
    if "f \<in> set (iter_files fs) \<and> \<not> listed ref f"
    using that ne verify_fold_printed[of "\<lparr>ok = 0, bad = 0, missing = 0, printed = []\<rparr>"
        "iter_files fs" ref sha256]
    by (auto simp: verify_main_def Let_def)
qed

lemmas ex_verify_defs =
  iter_files_def walked_def ex_file_a_def ex_file_b_def ex_ref_def ex_sha_def rel_path_def
  startswith_def endswith_def SKIP_DIR_NAMES_def SKIP_FILE_SUFFIXES_def listed_def
  mismatched_def

theorem verify_exit_code_witness:
  "ex_ref \<noteq> [] \<and> ex_file_b \<in> set (iter_files [ex_file_a, ex_file_b]) \<and> \<not> listed ex_ref ex_file_b
   \<and> \<not> list_ex (mismatched ex_sha ex_ref) (iter_files [ex_file_a, ex_file_b])
   \<and> fst (verify_main ex_sha (Some [ex_file_a, ex_file_b]) ex_ref) = 0
   \<and> fst (verify_main ex_sha (Some (filter (listed ex_ref) [ex_file_a, ex_file_b])) ex_ref) = 0
   \<and> MissingInTable (rel_path ex_file_b)
        \<in> set (snd (verify_main ex_sha (Some [ex_file_a, ex_file_b]) ex_ref))
   \<and> fst (verify_main ex_sha None ex_ref) = 2"
proof -
  have a: "ex_ref \<noteq> []" by (simp add: ex_ref_def)
  have b: "ex_file_b \<in> set (iter_files [ex_file_a, ex_file_b]) \<and> \<not> listed ex_ref ex_file_b"
    by (simp add: ex_verify_defs)
  have c: "\<not> list_ex (mismatched ex_sha ex_ref) (iter_files [ex_file_a, ex_file_b])"
    by (simp add: ex_verify_defs)
  from verify_exit_code[of None ex_ref ex_sha "[ex_file_a, ex_file_b]" ex_file_b] a b c
  show ?thesis by simp
qed

text \<open>
  The claim as stated fails where the table is empty: no listed file differs, yet the tool
  exits with code 2.
\<close>

theorem verify_empty_table_counterexample:
  "\<not> list_ex (mismatched ex_sha []) (iter_files [ex_file_a])
   \<and> fst (verify_main ex_sha (Some [ex_file_a]) []) = 2
   \<and> \<not> (fst (verify_main ex_sha (Some [ex_file_a]) []) = 0
          \<longleftrightarrow> \<not> list_ex (mismatched ex_sha []) (iter_files [ex_file_a]))"
  by (simp add: verify_main_def ex_verify_defs)

section \<open>The calendar\<close>

lemma int_div_bounds:
  fixes k n :: int
  assumes "0 < k"
  shows "k * (n div k) \<le> n" and "n < k * (n div k) + k"
proof -
  have e: "k * (n div k) + n mod k = n" by simp
  have "0 \<le> n mod k" "n mod k < k" using assms by simp_all
  with e show "k * (n div k) \<le> n" and "n < k * (n div k) + k" by linarith+
qed

lemma leap_days_upper: "400 * leap_days n \<le> 97 * n + 396"
proof -
  have a: "4 * (n div 4) \<le> n" by (rule int_div_bounds) simp
  have b: "n < 100 * (n div 100) + 100" by (rule int_div_bounds) simp
  have c: "400 * (n div 400) \<le> n" by (rule int_div_bounds) simp
  define x y z where "x = n div 4" and "y = n div 100" and "z = n div 400"
  have "400 * x - 400 * y + 400 * z \<le> 97 * n + 396"
    using a b c unfolding x_def[symmetric] y_def[symmetric] z_def[symmetric] by linarith
  then have "400 * (x - y + z) \<le> 97 * n + 396" by (simp add: algebra_simps)
  then show ?thesis unfolding leap_days_def x_def y_def z_def .
qed

lemma leap_days_lower: "97 * n - 699 \<le> 400 * leap_days n"
proof -
  have a: "n < 4 * (n div 4) + 4" by (rule int_div_bounds) simp
  have b: "100 * (n div 100) \<le> n" by (rule int_div_bounds) simp
  have c: "n < 400 * (n div 400) + 400" by (rule int_div_bounds) simp
  define x y z where "x = n div 4" and "y = n div 100" and "z = n div 400"
  have "97 * n - 699 \<le> 400 * x - 400 * y + 400 * z"
    using a b c unfolding x_def[symmetric] y_def[symmetric] z_def[symmetric] by linarith
  then have "97 * n - 699 \<le> 400 * (x - y + z)" by (simp add: algebra_simps)
  then show ?thesis unfolding leap_days_def x_def y_def z_def .
qed

lemma leap_days_1969: "leap_days 1969 = 477"
  by (simp add: leap_days_def)

text \<open>The year found for a day is the year whose first day bounds the day from below.\<close>

lemma year_of_day_bracket:
  "days_before_year (year_of_day d) \<le> d \<and> d < days_before_year (year_of_day d + 1)"
proof -
  define q where "q = (400 * d) div 146097"
  have q1: "146097 * q \<le> 400 * d" unfolding q_def by (rule int_div_bounds) simp
  have q2: "400 * d < 146097 * q + 146097" unfolding q_def by (rule int_div_bounds) simp
  have lo: "days_before_year (1970 + q - 1) \<le> d"
    using leap_days_upper[of "q + 1968"] q1
    unfolding days_before_year_def leap_days_1969 by (simp add: algebra_simps)
  have hi: "d < days_before_year (1970 + q + 1 + 1)"
    using leap_days_lower[of "q + 1971"] q2
    unfolding days_before_year_def leap_days_1969 by (simp add: algebra_simps)
  show ?thesis
    unfolding year_of_day_def q_def[symmetric] Let_def
    using lo hi by auto
qed

lemma div_succ:
  fixes k n :: int
  assumes k: "0 < k"
  shows "(n + 1) div k = n div k + (if (n + 1) mod k = 0 then 1 else 0)"
proof -
  define q r where "q = n div k" and "r = n mod k"
  have n: "n = k * q + r" and r0: "0 \<le> r" and rk: "r < k"
    using k by (simp_all add: q_def r_def)
  show ?thesis
  proof (cases "r + 1 = k")
    case True
    have e: "n + 1 = k * (q + 1) + 0" using n True by (simp add: algebra_simps)
    have "(n + 1) div k = q + 1" by (rule int_div_pos_eq[OF e]) (use k in simp_all)
    moreover have "(n + 1) mod k = 0" by (rule int_mod_pos_eq[OF e]) (use k in simp_all)
    ultimately show ?thesis by (simp add: q_def)
  next
    case False
    have e: "n + 1 = k * q + (r + 1)" using n by simp
    have b: "0 \<le> r + 1" "r + 1 < k" using r0 rk False by simp_all
    have "(n + 1) div k = q" by (rule int_div_pos_eq[OF e b])
    moreover have "(n + 1) mod k = r + 1" by (rule int_mod_pos_eq[OF e b])
    ultimately show ?thesis using r0 by (simp add: q_def)
  qed
qed

lemma mod_4_of_100: "(n::int) mod 100 = 0 \<Longrightarrow> n mod 4 = 0"
proof -
  assume "n mod 100 = 0"
  then have "100 dvd n" by (simp add: dvd_eq_mod_eq_0)
  moreover have "(4::int) dvd 100" by simp
  ultimately have "4 dvd n" by (rule dvd_trans[rotated])
  then show ?thesis by (simp add: dvd_eq_mod_eq_0)
qed

lemma mod_100_of_400: "(n::int) mod 400 = 0 \<Longrightarrow> n mod 100 = 0"
proof -
  assume "n mod 400 = 0"
  then have "400 dvd n" by (simp add: dvd_eq_mod_eq_0)
  moreover have "(100::int) dvd 400" by simp
  ultimately have "100 dvd n" by (rule dvd_trans[rotated])
  then show ?thesis by (simp add: dvd_eq_mod_eq_0)
qed

lemma leap_days_step: "leap_days (n + 1) = leap_days n + (if is_leap (n + 1) then 1 else 0)"
  unfolding leap_days_def is_leap_def
  using mod_4_of_100[of "n + 1"] mod_100_of_400[of "n + 1"]
  by (simp add: div_succ)

text \<open>A year has 365 days, a leap year 366.\<close>

lemma days_before_year_step:
  "days_before_year (y + 1) = days_before_year y + (if is_leap y then 366 else 365)"
  using leap_days_step[of "y - 1"] by (simp add: days_before_year_def)

lemma days_before_year_mono: "y \<le> y' \<Longrightarrow> days_before_year y \<le> days_before_year y'"
proof (induction y' rule: int_ge_induct)
  case base
  show ?case by simp
next
  case (step i)
  then show ?case by (simp add: days_before_year_step)
qed

lemma year_of_day_mono: "d \<le> d' \<Longrightarrow> year_of_day d \<le> year_of_day d'"
proof (rule ccontr)
  assume le: "d \<le> d'" and "\<not> year_of_day d \<le> year_of_day d'"
  then have "year_of_day d' + 1 \<le> year_of_day d" by simp
  from days_before_year_mono[OF this] year_of_day_bracket[of d] year_of_day_bracket[of d'] le
  show False by linarith
qed

lemma ordinal0_bounds: "0 \<le> ordinal0 d \<and> ordinal0 d < 366"
  using year_of_day_bracket[of d] days_before_year_step[of "year_of_day d"]
  by (auto simp: ordinal0_def split: if_splits)

lemma length_filter_mono:
  "(\<And>x. P x \<Longrightarrow> Q x) \<Longrightarrow> length (filter P xs) \<le> length (filter Q xs)"
  by (induction xs) auto

lemma month_of_ordinal_mono: "n \<le> n' \<Longrightarrow> month_of_ordinal l n \<le> month_of_ordinal l n'"
  unfolding month_of_ordinal_def
  using length_filter_mono[of "\<lambda>s. s \<le> n" "\<lambda>s. s \<le> n'" "month_starts l"] by simp

lemma month_of_ordinal_range: "1 \<le> month_of_ordinal l n \<and> month_of_ordinal l n \<le> 12"
proof -
  have "length (filter (\<lambda>s. s \<le> n) (month_starts l)) \<le> length (month_starts l)"
    by (rule length_filter_le)
  also have "\<dots> = 11" by (simp add: month_starts_def Let_def)
  finally show ?thesis by (simp add: month_of_ordinal_def)
qed

text \<open>Days between two days of one calendar month are days of that month.\<close>

lemma month_convex:
  assumes "d1 \<le> d2" "d2 \<le> d3"
    and y: "year_of_day d1 = year_of_day d3" and m: "month_of_day d1 = month_of_day d3"
  shows "year_of_day d2 = year_of_day d1 \<and> month_of_day d2 = month_of_day d1"
proof -
  have y2: "year_of_day d2 = year_of_day d1"
    using year_of_day_mono[OF assms(1)] year_of_day_mono[OF assms(2)] y by simp
  have o: "ordinal0 d1 \<le> ordinal0 d2" "ordinal0 d2 \<le> ordinal0 d3"
    using assms(1,2) y y2 by (simp_all add: ordinal0_def)
  from month_of_ordinal_mono[OF o(1), of "is_leap (year_of_day d1)"]
    month_of_ordinal_mono[OF o(2), of "is_leap (year_of_day d1)"] m y y2
  show ?thesis by (simp add: month_of_day_def)
qed

lemma iso_thursday_eq: "iso_thursday d = 7 * ((d + 3) div 7)"
proof -
  define q r where "q = (d + 3) div 7" and "r = (d + 3) mod 7"
  have "7 * q + r = d + 3" unfolding q_def r_def by (rule mult_div_mod_eq)
  then have "d - r + 3 = 7 * q" by linarith
  then show ?thesis unfolding iso_thursday_def weekday0_def q_def r_def .
qed

lemma iso_thursday_mono: "d \<le> d' \<Longrightarrow> iso_thursday d \<le> iso_thursday d'"
proof -
  assume "d \<le> d'"
  then have "(d + 3) div 7 \<le> (d' + 3) div 7" by (intro zdiv_mono1) simp_all
  then show ?thesis unfolding iso_thursday_eq by linarith
qed

lemma thursday_determined:
  assumes y: "year_of_day (7 * a) = year_of_day (7 * b)"
    and w: "ordinal0 (7 * a) div 7 = ordinal0 (7 * b) div 7"
  shows "a = b"
proof -
  define s where "s = days_before_year (year_of_day (7 * a))"
  have oa: "ordinal0 (7 * a) = 7 * a - s" and ob: "ordinal0 (7 * b) = 7 * b - s"
    using y by (simp_all add: ordinal0_def s_def)
  define q where "q = ordinal0 (7 * a) div 7"
  have qb: "q = ordinal0 (7 * b) div 7" using w by (simp add: q_def)
  have a1: "7 * q \<le> ordinal0 (7 * a)" and a2: "ordinal0 (7 * a) < 7 * q + 7"
    unfolding q_def by (rule int_div_bounds; simp)+
  have b1: "7 * q \<le> ordinal0 (7 * b)" and b2: "ordinal0 (7 * b) < 7 * q + 7"
    unfolding qb by (rule int_div_bounds; simp)+
  from a1 a2 b1 b2 show "a = b" unfolding oa ob by linarith
qed

lemma iso_week_range: "1 \<le> iso_week d \<and> iso_week d \<le> 53"
proof -
  define n where "n = ordinal0 (iso_thursday d)"
  have n: "0 \<le> n" "n < 366" using ordinal0_bounds[of "iso_thursday d"] by (simp_all add: n_def)
  have "7 * (n div 7) \<le> n" "n < 7 * (n div 7) + 7" by (rule int_div_bounds; simp)+
  with n have "0 \<le> n div 7 \<and> n div 7 \<le> 52" by linarith
  then show ?thesis by (simp add: iso_week_def n_def)
qed

lemma week_convex:
  assumes "d1 \<le> d2" "d2 \<le> d3"
    and y: "iso_year d1 = iso_year d3" and w: "iso_week d1 = iso_week d3"
  shows "iso_year d2 = iso_year d1 \<and> iso_week d2 = iso_week d1"
proof -
  have y': "year_of_day (7 * ((d1 + 3) div 7)) = year_of_day (7 * ((d3 + 3) div 7))"
    using y unfolding iso_year_def iso_thursday_eq .
  have w': "ordinal0 (7 * ((d1 + 3) div 7)) div 7 = ordinal0 (7 * ((d3 + 3) div 7)) div 7"
    using w unfolding iso_week_def iso_thursday_eq by linarith
  have "(d1 + 3) div 7 = (d3 + 3) div 7" by (rule thursday_determined[OF y' w'])
  then have "iso_thursday d1 = iso_thursday d3" unfolding iso_thursday_eq by (rule arg_cong)
  with iso_thursday_mono[OF assms(1)] iso_thursday_mono[OF assms(2)]
  have "iso_thursday d2 = iso_thursday d1" by linarith
  then show ?thesis unfolding iso_year_def iso_week_def by (rule ssubst) simp
qed

end
